theory Spec2Isabelle
  imports Complex_Main
begin

section \<open>Errors\<close>

text \<open>
  The Python exceptions that the modelled functions can raise. A function that can raise
  returns a sum: \<open>Inl\<close> the exception, \<open>Inr\<close> the value.
\<close>

datatype py_error = AssertionError | IndexError | ValueError | ZeroDivisionError | TypeError

section \<open>Navigation nodes (node\_helpers.py)\<close>

text \<open>
  A node of the navigation graph. The item uids are optional integers: Python's \<open>None\<close>
  is \<open>None\<close>, and the integer 0 is the sentinel "no item". The fields \<open>x\<close> and \<open>y\<close> of the
  source are named \<open>node_x\<close> and \<open>node_y\<close>.
\<close>

record Node =
  node_uid :: int
  node_x :: real
  node_y :: real
  forward_item_uid :: "int option"
  backward_item_uid :: "int option"

text \<open>Python truthiness of an optional integer: \<open>None\<close> and 0 are falsy.\<close>

definition truthy :: "int option \<Rightarrow> bool" where
  "truthy u = (case u of None \<Rightarrow> False | Some v \<Rightarrow> v \<noteq> 0)"

definition get_connecting_item_uid :: "Node \<Rightarrow> Node \<Rightarrow> int option" where
  "get_connecting_item_uid node_1 node_2 =
     (let node_1_forward_item = forward_item_uid node_1;
          node_1_backward_item = backward_item_uid node_1;
          node_2_forward_item = forward_item_uid node_2;
          node_2_backward_item = backward_item_uid node_2
      in if truthy node_1_forward_item \<and> node_1_forward_item = node_2_backward_item
           then node_1_forward_item
         else if truthy node_1_backward_item \<and> node_1_backward_item = node_2_forward_item
           then node_1_backward_item
         else if truthy node_1_forward_item \<and> node_1_forward_item = node_2_forward_item
           then node_1_forward_item
         else if truthy node_1_backward_item \<and> node_1_backward_item = node_2_backward_item
           then node_1_backward_item
         else None)"

text \<open>
  The specification's reading of the query: the four pairings in their precedence order,
  a pairing matching when both ids are equal and not the sentinel; the first matching
  pairing gives the result.
\<close>

definition pairings :: "Node \<Rightarrow> Node \<Rightarrow> (int option \<times> int option) list" where
  "pairings node_1 node_2 =
     [(forward_item_uid node_1, backward_item_uid node_2),
      (backward_item_uid node_1, forward_item_uid node_2),
      (forward_item_uid node_1, forward_item_uid node_2),
      (backward_item_uid node_1, backward_item_uid node_2)]"

definition is_sentinel :: "int option \<Rightarrow> bool" where
  "is_sentinel u = (u = None \<or> u = Some 0)"

definition pair_matches :: "int option \<times> int option \<Rightarrow> bool" where
  "pair_matches p = (fst p = snd p \<and> \<not> is_sentinel (fst p))"

definition connecting_item_spec :: "Node \<Rightarrow> Node \<Rightarrow> int option" where
  "connecting_item_spec node_1 node_2 =
     (case find pair_matches (pairings node_1 node_2) of
        None \<Rightarrow> None
      | Some p \<Rightarrow> fst p)"

subsection \<open>Rotations\<close>

text \<open>
  \<open>arr[count:] + arr[:count]\<close> and \<open>arr[-count:] + arr[:-count]\<close>, for a count that passed
  the assertion \<open>0 <= count < len(arr)\<close>. For \<open>0 < count < len(arr)\<close> the slice
  \<open>arr[-count:]\<close> is the last \<open>count\<close> elements and \<open>arr[:-count]\<close> the elements before them.
\<close>

definition rotate_left :: "'a list \<Rightarrow> int \<Rightarrow> py_error + 'a list" where
  "rotate_left arr count =
     (if \<not> (0 \<le> count \<and> count < int (length arr)) then Inl AssertionError
      else if count = 0 then Inr arr
      else Inr (drop (nat count) arr @ take (nat count) arr))"

definition rotate_right :: "'a list \<Rightarrow> int \<Rightarrow> py_error + 'a list" where
  "rotate_right arr count =
     (if \<not> (0 \<le> count \<and> count < int (length arr)) then Inl AssertionError
      else if count = 0 then Inr arr
      else Inr (drop (length arr - nat count) arr @ take (length arr - nat count) arr))"

subsection \<open>Items: roads and prefabs\<close>

text \<open>
  Only the number of lanes on each side of a road look is read, so a lane is its name.
  \<open>road_look\<close> is \<open>None\<close> while the look is unresolved.
\<close>

record RoadLook =
  lanes_left :: "string list"
  lanes_right :: "string list"

text \<open>
  A position with its three coordinates (the fields \<open>x\<close>, \<open>y\<close>, \<open>z\<close> of the source), and
  a lane with the points of its centerline. An attribute that \<open>hasattr\<close> may find missing
  is an option.
\<close>

record Position =
  pos_x :: real
  pos_y :: real
  pos_z :: real

record Lane =
  points :: "Position list option"

record Road =
  road_uid :: int
  road_look :: "RoadLook option"
  start_node_uid :: int
  lanes :: "Lane list option"

text \<open>A prefab-local node descriptor with its input and output lane index lists.\<close>

record PrefabNode =
  input_lanes :: "int list"
  output_lanes :: "int list"

text \<open>
  A prefab description: node descriptors, navigation curves and navigation routes; a route
  is the chain of its curves. The type \<open>'c\<close> of curves is any type with equality, as
  \<open>list.index\<close> compares curves with \<open>==\<close>.
\<close>

record 'c NavRoute =
  curves :: "'c list"

record 'c PrefabDescription =
  nodes :: "PrefabNode list"
  nav_curves :: "'c list"
  nav_routes :: "'c NavRoute list"

record 'c Prefab =
  prefab_uid :: int
  prefab_description :: "'c PrefabDescription option"
  node_uids :: "int list"
  origin_node_index :: int

datatype 'c Item = RoadItem Road | PrefabItem "'c Prefab" | OtherItem

text \<open>The Road branch of \<open>get_connecting_lanes_by_item\<close>.\<close>

definition road_lanes :: "Node \<Rightarrow> Road \<Rightarrow> nat list" where
  "road_lanes node_1 item =
     (case road_look item of
        None \<Rightarrow> []
      | Some look \<Rightarrow>
          (let left_lanes = length (lanes_left look);
               right_lanes = length (lanes_right look);
               start_node = start_node_uid item
           in if start_node = node_uid node_1 then [left_lanes ..< left_lanes + right_lanes]
              else if left_lanes > 0 then [0 ..< left_lanes]
              else [0 ..< right_lanes]))"

text \<open>Python's \<open>list.index\<close>: the first position of an equal element; \<open>None\<close> is ValueError.\<close>

fun list_index :: "'a list \<Rightarrow> 'a \<Rightarrow> nat option" where
  "list_index [] v = None"
| "list_index (a # as) v = (if a = v then Some 0 else map_option Suc (list_index as v))"

text \<open>
  \<open>[i for i, n in enumerate(rotated_nodes) if n and n.uid == uid]\<close>: the positions of the
  resolved nodes with the given uid.
\<close>

definition node_matches :: "Node option list \<Rightarrow> int \<Rightarrow> nat list" where
  "node_matches rotated_nodes u =
     filter (\<lambda>i. case rotated_nodes ! i of None \<Rightarrow> False | Some n \<Rightarrow> node_uid n = u)
       [0 ..< length rotated_nodes]"

text \<open>
  The inner loop over the curves of one route. A curve that is not among the navigation
  curves is skipped; the loop stops at the first curve whose index is an output lane of
  the end descriptor once the start has been found. The result is
  \<open>(start_found, end_found)\<close>.
\<close>

fun walk_curves :: "'c list \<Rightarrow> int list \<Rightarrow> int list \<Rightarrow> 'c list \<Rightarrow> bool \<Rightarrow> bool \<times> bool" where
  "walk_curves navc ins outs [] start_found = (start_found, False)"
| "walk_curves navc ins outs (curve # rest) start_found =
     (case list_index navc curve of
        None \<Rightarrow> walk_curves navc ins outs rest start_found
      | Some index \<Rightarrow>
          (let start_found' = (if int index \<in> set ins then True else start_found)
           in if int index \<in> set outs \<and> start_found' then (start_found', True)
              else walk_curves navc ins outs rest start_found'))"

definition accepted_routes :: "'c PrefabDescription \<Rightarrow> PrefabNode \<Rightarrow> PrefabNode \<Rightarrow> nat list" where
  "accepted_routes description start_prefab_node end_prefab_node =
     filter (\<lambda>i. case walk_curves (nav_curves description) (input_lanes start_prefab_node)
                        (output_lanes end_prefab_node) (curves (nav_routes description ! i)) False of
                   (start_found, end_found) \<Rightarrow> start_found \<and> end_found)
       [0 ..< length (nav_routes description)]"

text \<open>
  The rotation of the resolved boundary nodes, outside the \<open>try\<close> block: a failed assertion
  of \<open>rotate_right\<close> leaves the function.
\<close>

definition rotated_nodes :: "'c Prefab \<Rightarrow> (int \<Rightarrow> Node option) \<Rightarrow> py_error + Node option list" where
  "rotated_nodes item get_node_by_uid =
     rotate_right (map get_node_by_uid (node_uids item)) (origin_node_index item)"

text \<open>
  The Prefab branch. An index beyond the description's nodes raises IndexError inside the
  \<open>try\<close> block, which returns the empty list.
\<close>

definition prefab_lanes ::
  "Node \<Rightarrow> Node \<Rightarrow> 'c Prefab \<Rightarrow> (int \<Rightarrow> Node option) \<Rightarrow> py_error + nat list" where
  "prefab_lanes node_1 node_2 item get_node_by_uid =
     (case prefab_description item of
        None \<Rightarrow> Inr []
      | Some description \<Rightarrow>
          (case rotated_nodes item get_node_by_uid of
             Inl e \<Rightarrow> Inl e
           | Inr rotated \<Rightarrow>
               (case node_matches rotated (node_uid node_1) of
                  [] \<Rightarrow> Inr []
                | node_1_index # _ \<Rightarrow>
                    if length (nodes description) \<le> node_1_index then Inr []
                    else
                      (case node_matches rotated (node_uid node_2) of
                         [] \<Rightarrow> Inr []
                       | node_2_index # _ \<Rightarrow>
                           if length (nodes description) \<le> node_2_index then Inr []
                           else if node_1_index = node_2_index then Inr []
                           else if nav_routes description = [] then Inr []
                           else Inr (accepted_routes description
                                  (nodes description ! node_1_index)
                                  (nodes description ! node_2_index))))))"

definition get_connecting_lanes_by_item ::
  "Node \<Rightarrow> Node \<Rightarrow> 'c Item \<Rightarrow> (int \<Rightarrow> Node option) \<Rightarrow> py_error + nat list" where
  "get_connecting_lanes_by_item node_1 node_2 item get_node_by_uid =
     (case item of
        RoadItem r \<Rightarrow> Inr (road_lanes node_1 r)
      | PrefabItem p \<Rightarrow> prefab_lanes node_1 node_2 p get_node_by_uid
      | OtherItem \<Rightarrow> Inr [])"

text \<open>
  The specification's reading of route acceptance: somewhere in the chain there is a curve
  whose index is an output lane of the end descriptor, and at or before it a curve whose
  index is an input lane of the start descriptor.
\<close>

definition curve_index_in :: "'c list \<Rightarrow> int list \<Rightarrow> 'c \<Rightarrow> bool" where
  "curve_index_in navc lane_ids curve =
     (case list_index navc curve of None \<Rightarrow> False | Some k \<Rightarrow> int k \<in> set lane_ids)"

definition route_connects :: "'c list \<Rightarrow> int list \<Rightarrow> int list \<Rightarrow> 'c list \<Rightarrow> bool" where
  "route_connects navc ins outs chain =
     (\<exists>j < length chain. curve_index_in navc outs (chain ! j)
        \<and> (\<exists>i \<le> j. curve_index_in navc ins (chain ! i)))"

text \<open>Fixtures for the concrete instances: a node that carries only its uid.\<close>

definition plain_node :: "int \<Rightarrow> Node" where
  "plain_node u =
     \<lparr>node_uid = u, node_x = 0, node_y = 0, forward_item_uid = None, backward_item_uid = None\<rparr>"

definition resolve_all :: "int \<Rightarrow> Node option" where
  "resolve_all u = Some (plain_node u)"

text \<open>
  A prefab with three boundary nodes and origin index 1. Its description has three routes:
  the first enters by curve 0 and leaves by curve 1, the second visits them in the opposite
  order, the third touches neither.
\<close>

definition example_description :: "nat PrefabDescription" where
  "example_description =
     \<lparr>nodes = [\<lparr>input_lanes = [], output_lanes = []\<rparr>,
               \<lparr>input_lanes = [0], output_lanes = []\<rparr>,
               \<lparr>input_lanes = [], output_lanes = [1]\<rparr>],
      nav_curves = [100, 101, 102],
      nav_routes = [\<lparr>curves = [100, 101]\<rparr>, \<lparr>curves = [101, 100]\<rparr>, \<lparr>curves = [102]\<rparr>]\<rparr>"

definition example_prefab :: "nat Prefab" where
  "example_prefab =
     \<lparr>prefab_uid = 1, prefab_description = Some example_description,
      node_uids = [10, 20, 30], origin_node_index = 1\<rparr>"

section \<open>Scalar smoother (numbers.py)\<close>

text \<open>
  The sample history: in "frames" mode a deque with a maximal length, in "time" mode a
  deque of (timestamp, value) pairs; an instance built with any other mode has no history.
  Floats are modelled as reals and \<open>time.perf_counter()\<close> is the argument \<open>now\<close>.
\<close>

datatype value_array = FrameDeque nat "real list" | TimeDeque "(real \<times> real) list" | NoArray

record SmoothedValue =
  valueArray :: value_array
  smoothingType :: string
  smoothingAmount :: real

text \<open>Python's \<open>int()\<close> on a number truncates towards zero.\<close>

definition py_int :: "real \<Rightarrow> int" where
  "py_int a = (if 0 \<le> a then \<lfloor>a\<rfloor> else \<lceil>a\<rceil>)"

text \<open>
  \<open>append\<close> on a deque with a maximal length discards from the left what exceeds it.
\<close>

definition deque_append :: "nat \<Rightarrow> 'a list \<Rightarrow> 'a \<Rightarrow> 'a list" where
  "deque_append maxlen xs v = drop (length (xs @ [v]) - maxlen) (xs @ [v])"

text \<open>\<open>deque([0], maxlen=n)\<close> raises ValueError for a negative \<open>n\<close>.\<close>

definition SmoothedValue_init :: "string \<Rightarrow> real \<Rightarrow> real \<Rightarrow> py_error + SmoothedValue" where
  "SmoothedValue_init smoothing_type smoothing_amount now =
     (if smoothing_type = ''frames'' then
        (if py_int smoothing_amount < 0 then Inl ValueError
         else Inr \<lparr>valueArray = FrameDeque (nat (py_int smoothing_amount))
                                   (deque_append (nat (py_int smoothing_amount)) [] 0),
                   smoothingType = smoothing_type, smoothingAmount = smoothing_amount\<rparr>)
      else if smoothing_type = ''time'' then
        Inr \<lparr>valueArray = TimeDeque [(now, 0)],
             smoothingType = smoothing_type, smoothingAmount = smoothing_amount\<rparr>
      else Inr \<lparr>valueArray = NoArray,
                smoothingType = smoothing_type, smoothingAmount = smoothing_amount\<rparr>)"

text \<open>
  The pruning loop of the "time" mode: while more than one sample is stored and the newest
  is more than \<open>amount\<close> later than the oldest, the oldest is dropped.
\<close>

fun prune :: "real \<Rightarrow> (real \<times> real) list \<Rightarrow> (real \<times> real) list" where
  "prune amount (a # b # rest) =
     (if fst (last (a # b # rest)) - fst a > amount then prune amount (b # rest)
      else a # b # rest)"
| "prune amount xs = xs"

text \<open>\<open>sum(xs) / len(xs)\<close>, which raises on an empty history.\<close>

definition average :: "real list \<Rightarrow> py_error + real" where
  "average xs = (if xs = [] then Inl ZeroDivisionError else Inr (sum_list xs / real (length xs)))"

definition smooth :: "SmoothedValue \<Rightarrow> real \<Rightarrow> real \<Rightarrow> py_error + (real \<times> SmoothedValue)" where
  "smooth self now v =
     (if smoothingType self = ''frames'' then
        (case valueArray self of
           FrameDeque maxlen xs \<Rightarrow>
             (let ys = deque_append maxlen xs v
              in case average ys of
                   Inl e \<Rightarrow> Inl e
                 | Inr a \<Rightarrow> Inr (a, self\<lparr>valueArray := FrameDeque maxlen ys\<rparr>))
         | _ \<Rightarrow> Inl TypeError)
      else if smoothingType self = ''time'' then
        (case valueArray self of
           TimeDeque xs \<Rightarrow>
             (let ys = prune (smoothingAmount self) (xs @ [(now, v)])
              in case average (map snd ys) of
                   Inl e \<Rightarrow> Inl e
                 | Inr a \<Rightarrow> Inr (a, self\<lparr>valueArray := TimeDeque ys\<rparr>))
         | _ \<Rightarrow> Inl TypeError)
      else Inl ValueError)"

definition get :: "SmoothedValue \<Rightarrow> real \<Rightarrow> py_error + (real \<times> SmoothedValue)" where
  "get self now =
     (if smoothingType self = ''frames'' then
        (case valueArray self of
           FrameDeque maxlen xs \<Rightarrow>
             (case average xs of Inl e \<Rightarrow> Inl e | Inr a \<Rightarrow> Inr (a, self))
         | _ \<Rightarrow> Inl TypeError)
      else if smoothingType self = ''time'' then
        (case valueArray self of
           TimeDeque xs \<Rightarrow>
             (let ys = prune (smoothingAmount self) xs
              in if ys = [] then Inr (0, self\<lparr>valueArray := TimeDeque ys\<rparr>)
                 else (case average (map snd ys) of
                         Inl e \<Rightarrow> Inl e
                       | Inr a \<Rightarrow> Inr (a, self\<lparr>valueArray := TimeDeque ys\<rparr>)))
         | _ \<Rightarrow> Inl TypeError)
      else Inl ValueError)"

text \<open>Pushing a sequence of (time, value) samples, collecting the averages returned.\<close>

fun smooth_all :: "SmoothedValue \<Rightarrow> (real \<times> real) list \<Rightarrow> py_error + (real list \<times> SmoothedValue)" where
  "smooth_all self [] = Inr ([], self)"
| "smooth_all self ((now, v) # rest) =
     (case smooth self now v of
        Inl e \<Rightarrow> Inl e
      | Inr (a, self') \<Rightarrow>
          (case smooth_all self' rest of
             Inl e \<Rightarrow> Inl e
           | Inr (avgs, self'') \<Rightarrow> Inr (a # avgs, self'')))"

section \<open>Lane safety (lane\_safety.py)\<close>

text \<open>
  Floats are modelled as reals. The traffic vehicles (the result of
  \<open>get_vehicles_from_plugin\<close>, which is the empty list when the collaborator has nothing or
  fails), the truck pose (\<open>data.truck_x\<close>, \<open>data.truck_z\<close>, \<open>data.truck_rotation\<close>) and the
  three module-level state variables are arguments. \<open>math_helpers.IsInFront\<close> is not among
  the sources: it is the argument \<open>IsInFront\<close> of every function that calls it.
\<close>

definition LANE_WIDTH :: real where "LANE_WIDTH = 3.5"
definition SAFETY_DISTANCE_AHEAD :: real where "SAFETY_DISTANCE_AHEAD = 30"
definition SAFETY_DISTANCE_BEHIND :: real where "SAFETY_DISTANCE_BEHIND = 15"
definition SAFETY_DISTANCE_BESIDE :: real where "SAFETY_DISTANCE_BESIDE = 8"

type_synonym point = "real \<times> real"
type_synonym front_test = "point \<Rightarrow> real \<Rightarrow> point \<Rightarrow> bool"

record Vehicle =
  vehicle_id :: nat
  position :: Position

text \<open>
  Modelled from the spec: \<open>Position.is_zero\<close> is not among the sources; a zero position
  means "not currently valid", so it holds when all three coordinates are zero.
\<close>

definition is_zero :: "Position \<Rightarrow> bool" where
  "is_zero p = (pos_x p = 0 \<and> pos_y p = 0 \<and> pos_z p = 0)"

record TruckData =
  truck_x :: real
  truck_z :: real
  truck_rotation :: real

record LaneChangeState =
  pending_lane_change :: bool
  target_lane_index :: "int option"
  slow_down_for_lane_change :: bool

definition distance_point_to_line_segment :: "point \<Rightarrow> point \<Rightarrow> point \<Rightarrow> real" where
  "distance_point_to_line_segment pt line_start line_end =
     (let px = fst pt; pz = snd pt;
          x1 = fst line_start; z1 = snd line_start;
          x2 = fst line_end; z2 = snd line_end;
          dx = x2 - x1;
          dz = z2 - z1;
          length_sq = dx * dx + dz * dz
      in if length_sq = 0 then sqrt ((px - x1)\<^sup>2 + (pz - z1)\<^sup>2)
         else
           (let t = max 0 (min 1 (((px - x1) * dx + (pz - z1) * dz) / length_sq));
                closest_x = x1 + t * dx;
                closest_z = z1 + t * dz
            in sqrt ((px - closest_x)\<^sup>2 + (pz - closest_z)\<^sup>2)))"

text \<open>The distance of a vehicle to the truck, as both functions compute it.\<close>

definition dist_to_truck :: "Vehicle \<Rightarrow> point \<Rightarrow> real" where
  "dist_to_truck vehicle truck_pos =
     sqrt ((pos_x (position vehicle) - fst truck_pos)\<^sup>2
         + (pos_z (position vehicle) - snd truck_pos)\<^sup>2)"

text \<open>
  The running minimum over the segments of the centerline starts at \<open>float('inf')\<close>, which
  is \<open>None\<close> here.
\<close>

definition min_dist_to_lane :: "point \<Rightarrow> Position list \<Rightarrow> real option" where
  "min_dist_to_lane vehicle_pos lane_points =
     foldl (\<lambda>acc seg. case seg of (p1, p2) \<Rightarrow>
              (let d = distance_point_to_line_segment vehicle_pos
                         (pos_x p1, pos_z p1) (pos_x p2, pos_z p2)
               in case acc of None \<Rightarrow> Some d | Some m \<Rightarrow> Some (min m d)))
       None (zip lane_points (tl lane_points))"

definition is_vehicle_in_lane :: "front_test \<Rightarrow> Vehicle \<Rightarrow> Position list \<Rightarrow> point \<Rightarrow> real \<Rightarrow> bool" where
  "is_vehicle_in_lane IsInFront vehicle lane_points truck_pos truck_rot =
     (if lane_points = [] \<or> length lane_points < 2 then False
      else
        (let vehicle_pos = (pos_x (position vehicle), pos_z (position vehicle));
             is_in_front = IsInFront vehicle_pos truck_rot truck_pos;
             dist = dist_to_truck vehicle truck_pos;
             max_check_distance = (if is_in_front then SAFETY_DISTANCE_AHEAD
                                   else SAFETY_DISTANCE_BEHIND)
         in if dist > max_check_distance + 10 then False
            else (case min_dist_to_lane vehicle_pos lane_points of
                    None \<Rightarrow> False
                  | Some m \<Rightarrow> m < LANE_WIDTH / 2 + 1)))"

datatype blocking_kind = Ahead | Behind | Beside

text \<open>The body of the loop over the vehicles: what one vehicle adds to the blocking list.\<close>

definition classify_vehicle ::
  "front_test \<Rightarrow> Position list \<Rightarrow> point \<Rightarrow> real \<Rightarrow> Vehicle \<Rightarrow> (Vehicle \<times> real \<times> blocking_kind) option" where
  "classify_vehicle IsInFront lane_points truck_pos truck_rot vehicle =
     (if is_zero (position vehicle) then None
      else if is_vehicle_in_lane IsInFront vehicle lane_points truck_pos truck_rot then
        (let vehicle_pos = (pos_x (position vehicle), pos_z (position vehicle));
             dist = dist_to_truck vehicle truck_pos;
             is_in_front = IsInFront vehicle_pos truck_rot truck_pos
         in if is_in_front \<and> dist < SAFETY_DISTANCE_AHEAD then Some (vehicle, dist, Ahead)
            else if \<not> is_in_front \<and> dist < SAFETY_DISTANCE_BEHIND then Some (vehicle, dist, Behind)
            else if dist < SAFETY_DISTANCE_BESIDE then Some (vehicle, dist, Beside)
            else None)
      else None)"

definition blocking_vehicles ::
  "front_test \<Rightarrow> Position list \<Rightarrow> point \<Rightarrow> real \<Rightarrow> Vehicle list \<Rightarrow> (Vehicle \<times> real \<times> blocking_kind) list" where
  "blocking_vehicles IsInFront lane_points truck_pos truck_rot vehicles =
     List.map_filter (classify_vehicle IsInFront lane_points truck_pos truck_rot) vehicles"

text \<open>Python indexing of a list: a negative index counts from the end.\<close>

definition py_index :: "'a list \<Rightarrow> int \<Rightarrow> py_error + 'a" where
  "py_index xs i =
     (if 0 \<le> i \<and> i < int (length xs) then Inr (xs ! nat i)
      else if i < 0 \<and> - int (length xs) \<le> i then Inr (xs ! nat (int (length xs) + i))
      else Inl IndexError)"

text \<open>
  \<open>check_lane_safety\<close>: the state before the call is an argument, the result is the state
  after the call with the returned pair \<open>(is_safe, speed_factor)\<close>.
\<close>

definition check_lane_safety ::
  "front_test \<Rightarrow> Vehicle list \<Rightarrow> TruckData \<Rightarrow> LaneChangeState \<Rightarrow> int \<Rightarrow> int \<Rightarrow> Road
     \<Rightarrow> py_error + (LaneChangeState \<times> bool \<times> real)" where
  "check_lane_safety IsInFront vehicles truck st target_lane current_lane road =
     (if target_lane = current_lane then
        Inr (st\<lparr>pending_lane_change := False, slow_down_for_lane_change := False\<rparr>, True, 1)
      else if vehicles = [] then Inr (st, True, 1)
      else
        (case lanes road of
           None \<Rightarrow> Inr (st, True, 1)
         | Some lane_list \<Rightarrow>
             if target_lane \<ge> int (length lane_list) then Inr (st, True, 1)
             else
               (case py_index lane_list target_lane of
                  Inl e \<Rightarrow> Inl e
                | Inr the_lane \<Rightarrow>
                    (case points the_lane of
                       None \<Rightarrow> Inr (st, True, 1)
                     | Some lane_points \<Rightarrow>
                         if lane_points = [] then Inr (st, True, 1)
                         else
                           (let truck_pos = (truck_x truck, truck_z truck);
                                truck_rot = truck_rotation truck;
                                blocking = blocking_vehicles IsInFront lane_points truck_pos
                                             truck_rot vehicles
                            in if blocking = [] then
                                 Inr (st\<lparr>pending_lane_change := False,
                                         slow_down_for_lane_change := False\<rparr>, True, 1)
                               else
                                 (let closest_dist = min_list (map (\<lambda>b. fst (snd b)) blocking);
                                      speed_factor =
                                        min 1 (max 0.3 (closest_dist / SAFETY_DISTANCE_AHEAD))
                                  in Inr (st\<lparr>pending_lane_change := True,
                                             target_lane_index := Some target_lane,
                                             slow_down_for_lane_change := True\<rparr>,
                                          False, speed_factor)))))))"

definition is_waiting_for_lane_change :: "LaneChangeState \<Rightarrow> bool" where
  "is_waiting_for_lane_change st = pending_lane_change st"

definition get_lane_change_speed_factor :: "LaneChangeState \<Rightarrow> real" where
  "get_lane_change_speed_factor st = (if \<not> slow_down_for_lane_change st then 1 else 0.5)"

definition reset_lane_change_state :: "LaneChangeState \<Rightarrow> LaneChangeState" where
  "reset_lane_change_state st =
     st\<lparr>pending_lane_change := False, target_lane_index := None,
        slow_down_for_lane_change := False\<rparr>"

text \<open>
  Modelled from the spec: \<open>math_helpers.IsInFront\<close> is not among the sources. The spec
  describes it as a dot-product-style check against the heading direction: the point is
  in front when the vector from the position to the point has a positive dot product with
  the heading. The heading of rotation \<open>r\<close> is taken as \<open>(sin r, cos r)\<close>. This test is used
  only to build concrete instances; the general theorems hold for every front test.
\<close>

definition IsInFront_dot :: front_test where
  "IsInFront_dot pt rot pos =
     (0 < (fst pt - fst pos) * sin rot + (snd pt - snd pos) * cos rot)"

text \<open>
  Fixtures for the concrete instances: a truck at the origin with rotation 0, a road whose
  lane 1 has a straight centerline along the z axis, and a vehicle on that centerline at a
  given z.
\<close>

definition truck_at_origin :: TruckData where
  "truck_at_origin = \<lparr>truck_x = 0, truck_z = 0, truck_rotation = 0\<rparr>"

definition straight_lane :: Lane where
  "straight_lane = \<lparr>points = Some [\<lparr>pos_x = 0, pos_y = 0, pos_z = -100\<rparr>,
                                    \<lparr>pos_x = 0, pos_y = 0, pos_z = 100\<rparr>]\<rparr>"

definition two_lane_road :: Road where
  "two_lane_road = \<lparr>road_uid = 1, road_look = None, start_node_uid = 5,
                     lanes = Some [\<lparr>points = Some []\<rparr>, straight_lane]\<rparr>"

definition vehicle_at :: "real \<Rightarrow> Vehicle" where
  "vehicle_at z = \<lparr>vehicle_id = 1, position = \<lparr>pos_x = 0, pos_y = 0, pos_z = z\<rparr>\<rparr>"

definition idle_state :: LaneChangeState where
  "idle_state = \<lparr>pending_lane_change = False, target_lane_index = None,
                  slow_down_for_lane_change = False\<rparr>"

text \<open>
  The conditions of the early returns after the first: no vehicles, no lane data for the
  target lane, or a target lane without centerline points.
\<close>

definition fail_open_condition :: "Vehicle list \<Rightarrow> int \<Rightarrow> Road \<Rightarrow> bool" where
  "fail_open_condition vehicles target_lane road =
     (vehicles = [] \<or> lanes road = None
      \<or> (\<exists>lane_list. lanes road = Some lane_list
            \<and> (int (length lane_list) \<le> target_lane
                \<or> (\<exists>the_lane. py_index lane_list target_lane = Inr the_lane
                      \<and> (points the_lane = None \<or> points the_lane = Some [])))))"

text \<open>
  The specification's reading of "blocking": a vehicle with a non-zero position that is a
  member of the target lane and is ahead (in front and closer than 30 m), behind (not in
  front and closer than 15 m) or beside (closer than 8 m).
\<close>

definition is_blocking :: "front_test \<Rightarrow> Position list \<Rightarrow> point \<Rightarrow> real \<Rightarrow> Vehicle \<Rightarrow> bool" where
  "is_blocking IsInFront lane_points truck_pos truck_rot vehicle =
     (\<not> is_zero (position vehicle)
      \<and> is_vehicle_in_lane IsInFront vehicle lane_points truck_pos truck_rot
      \<and> ((IsInFront (pos_x (position vehicle), pos_z (position vehicle)) truck_rot truck_pos
           \<and> dist_to_truck vehicle truck_pos < 30)
          \<or> (\<not> IsInFront (pos_x (position vehicle), pos_z (position vehicle)) truck_rot truck_pos
              \<and> dist_to_truck vehicle truck_pos < 15)
          \<or> dist_to_truck vehicle truck_pos < 8))"

definition pending_state :: LaneChangeState where
  "pending_state = \<lparr>pending_lane_change = True, target_lane_index = Some 0,
                     slow_down_for_lane_change = True\<rparr>"

section \<open>Surrounding navigation nodes (node\_helpers.py)\<close>

record RouteNode =
  node :: Node

text \<open>
  Modelled from the spec: \<open>math_helpers.DistanceBetweenPoints\<close> is not among the sources;
  the spec has the closest node found by Euclidean ground-plane distance.
\<close>

definition DistanceBetweenPoints :: "point \<Rightarrow> point \<Rightarrow> real" where
  "DistanceBetweenPoints a b = sqrt ((fst a - fst b)\<^sup>2 + (snd a - snd b)\<^sup>2)"

text \<open>A slice \<open>xs[lo:hi]\<close> with bounds that are not negative; Python clips it to the list.\<close>

definition py_slice :: "'a list \<Rightarrow> nat \<Rightarrow> nat \<Rightarrow> 'a list" where
  "py_slice xs lo hi = take (hi - lo) (drop lo xs)"

text \<open>
  \<open>get_surrounding_nav_nodes\<close>. \<open>sorted\<close> is a stable sort, as \<open>sort_key\<close> is. Indexing
  the sorted list of an empty path raises IndexError outside the \<open>try\<close> block; inside it, a
  missing \<open>False\<close> or \<open>True\<close> among the flags gives \<open>(None, None)\<close>. The lower bound
  \<open>max(0, index - 1)\<close> is the truncating subtraction on naturals.
\<close>

definition get_surrounding_nav_nodes ::
  "front_test \<Rightarrow> RouteNode list \<Rightarrow> real \<Rightarrow> real \<Rightarrow> real \<Rightarrow> py_error + (Node option \<times> Node option)" where
  "get_surrounding_nav_nodes IsInFront route_nodes x z rot =
     (let pos = (x, z);
          path = map node route_nodes;
          distance_ordered =
            sort_key (\<lambda>n. DistanceBetweenPoints (node_x n, node_y n) pos) path
      in case distance_ordered of
           [] \<Rightarrow> Inl IndexError
         | closest # _ \<Rightarrow>
             (let in_front = IsInFront (node_x closest, node_y closest) rot pos
              in case list_index path closest of
                   None \<Rightarrow> Inl ValueError
                 | Some index \<Rightarrow>
                     (let lower_bound = (if \<not> in_front then index else index - 1);
                          upper_bound = (if \<not> in_front then min (length path) (index + 2)
                                         else if lower_bound = 0 then index + 2
                                         else index + 1);
                          closest_nodes = py_slice path lower_bound upper_bound;
                          flags = map (\<lambda>n. IsInFront (node_x n, node_y n) rot pos) closest_nodes
                      in case (list_index flags False, list_index flags True) of
                           (Some i, Some j) \<Rightarrow>
                             Inr (Some (closest_nodes ! i), Some (closest_nodes ! j))
                         | _ \<Rightarrow> Inr (None, None))))"

text \<open>
  The specification's reading. The closest index is the first position of a node at least
  distance. The window is given by a rule from the front test of the closest node and its
  index; within the window the first node behind is the last node and the first node ahead
  is the next node, and both are absent when either is missing.
\<close>

definition is_closest_index :: "point \<Rightarrow> Node list \<Rightarrow> nat \<Rightarrow> bool" where
  "is_closest_index pos path i =
     (i < length path
      \<and> (\<forall>j < length path. DistanceBetweenPoints (node_x (path ! i), node_y (path ! i)) pos
                             \<le> DistanceBetweenPoints (node_x (path ! j), node_y (path ! j)) pos)
      \<and> (\<forall>j < i. DistanceBetweenPoints (node_x (path ! i), node_y (path ! i)) pos
                    < DistanceBetweenPoints (node_x (path ! j), node_y (path ! j)) pos))"

definition first_behind_and_ahead :: "(Node \<Rightarrow> bool) \<Rightarrow> Node list \<Rightarrow> Node option \<times> Node option" where
  "first_behind_and_ahead ahead window =
     (case (find (\<lambda>n. \<not> ahead n) window, find ahead window) of
        (Some l, Some n) \<Rightarrow> (Some l, Some n)
      | _ \<Rightarrow> (None, None))"

definition surrounding_by_window ::
  "(bool \<Rightarrow> nat \<Rightarrow> nat \<times> nat) \<Rightarrow> front_test \<Rightarrow> Node list \<Rightarrow> point \<Rightarrow> real \<Rightarrow> nat
     \<Rightarrow> Node option \<times> Node option" where
  "surrounding_by_window window IsInFront path pos rot index =
     (let ahead = (\<lambda>n. IsInFront (node_x n, node_y n) rot pos);
          bounds = window (ahead (path ! index)) index
      in first_behind_and_ahead ahead (py_slice path (fst bounds) (snd bounds)))"

text \<open>The window rule as the specification states it.\<close>

definition claimed_window :: "bool \<Rightarrow> nat \<Rightarrow> nat \<times> nat" where
  "claimed_window in_front index =
     (if \<not> in_front then (index, index + 2)
      else if index = 0 then (0, index + 2)
      else (index - 1, index + 1))"

text \<open>The window rule of the code: the wider window is also taken at index 1.\<close>

definition code_window :: "bool \<Rightarrow> nat \<Rightarrow> nat \<times> nat" where
  "code_window in_front index =
     (if \<not> in_front then (index, index + 2)
      else if index \<le> 1 then (0, index + 2)
      else (index - 1, index + 1))"

text \<open>Fixtures: a route node on the z axis, and paths of such nodes.\<close>

definition route_node_at :: "int \<Rightarrow> real \<Rightarrow> RouteNode" where
  "route_node_at u z =
     \<lparr>node = \<lparr>node_uid = u, node_x = 0, node_y = z, forward_item_uid = None,
               backward_item_uid = None\<rparr>\<rparr>"

definition straight_path :: "RouteNode list" where
  "straight_path = [route_node_at 0 0, route_node_at 1 10, route_node_at 2 20,
                    route_node_at 3 30, route_node_at 4 40]"

definition reversed_path :: "RouteNode list" where
  "reversed_path = [route_node_at 0 10, route_node_at 1 1, route_node_at 2 (-5)]"

section \<open>Connecting item between two nodes\<close>

lemma truthy_iff: "truthy u \<longleftrightarrow> \<not> is_sentinel u"
  by (cases u) (simp_all add: truthy_def is_sentinel_def)

text \<open>
  Claim C7. The connecting-item query checks the pairings (node 1 forward, node 2 backward),
  (node 1 backward, node 2 forward), (node 1 forward, node 2 forward), (node 1 backward,
  node 2 backward) in this order and returns the item id of the first pairing whose ids are
  equal and not the sentinel; it never returns a sentinel id as a match, and it returns
  absent exactly when no pairing matches.
\<close>

theorem get_connecting_item_uid_first_match:
  "get_connecting_item_uid node_1 node_2 = connecting_item_spec node_1 node_2
   \<and> get_connecting_item_uid node_1 node_2 \<noteq> Some 0
   \<and> (get_connecting_item_uid node_1 node_2 = None
        \<longleftrightarrow> \<not> list_ex pair_matches (pairings node_1 node_2))"
  by (auto simp add: get_connecting_item_uid_def connecting_item_spec_def pairings_def
        pair_matches_def truthy_iff is_sentinel_def Let_def)

theorem get_connecting_item_uid_first_match_witness:
  "get_connecting_item_uid
     \<lparr>node_uid = 1, node_x = 0, node_y = 0, forward_item_uid = Some 0, backward_item_uid = Some 7\<rparr>
     \<lparr>node_uid = 2, node_x = 0, node_y = 0, forward_item_uid = Some 7, backward_item_uid = Some 0\<rparr>
   = Some 7"
  using get_connecting_item_uid_first_match
    [of "\<lparr>node_uid = 1, node_x = 0, node_y = 0, forward_item_uid = Some 0, backward_item_uid = Some 7\<rparr>"
        "\<lparr>node_uid = 2, node_x = 0, node_y = 0, forward_item_uid = Some 7, backward_item_uid = Some 0\<rparr>"]
  by (simp add: connecting_item_spec_def pairings_def pair_matches_def is_sentinel_def)

section \<open>Rotation of the boundary nodes\<close>

lemma rotate_right_nth:
  assumes "0 \<le> count" "count < int (length arr)"
  shows "\<exists>rot. rotate_right arr count = Inr rot \<and> length rot = length arr \<and>
    (\<forall>i < length arr. rot ! ((i + nat count) mod length arr) = arr ! i)"
proof (cases "count = 0")
  case True
  with assms show ?thesis by (simp add: rotate_right_def)
next
  case False
  define n where "n = length arr"
  define c where "c = nat count"
  have c: "0 < c" "c < n" using assms False by (simp_all add: c_def n_def)
  have rr: "rotate_right arr count = Inr (drop (n - c) arr @ take (n - c) arr)"
    using assms False by (simp add: rotate_right_def n_def c_def)
  have "(drop (n - c) arr @ take (n - c) arr) ! ((i + c) mod n) = arr ! i" if "i < n" for i
  proof (cases "i + c < n")
    case True
    then have "(i + c) mod n = i + c" by simp
    moreover have "length (drop (n - c) arr) = c" using c by (simp add: n_def)
    ultimately show ?thesis using True c by (simp add: nth_append n_def)
  next
    case False
    then have m: "(i + c) mod n = i + c - n" using that c
      by (simp add: mod_if)
    have "i + c - n < c" using that c False by simp
    then show ?thesis using m c that False by (simp add: nth_append n_def)
  qed
  then show ?thesis using rr by (simp add: n_def c_def)
qed

text \<open>
  Claim C4, as the code has it. For a prefab whose origin index is within its boundary
  nodes, the rotation succeeds, keeps the number of nodes, and moves the node at position
  \<open>i\<close> to position \<open>(i + origin_node_index) mod n\<close>: the first boundary node lands at
  position \<open>origin_node_index\<close>, and the first node of the rotated list is the node that was
  at position \<open>(n - origin_node_index) mod n\<close>.
\<close>

theorem rotated_nodes_positions:
  assumes "0 \<le> origin_node_index item"
    and "origin_node_index item < int (length (node_uids item))"
  shows "\<exists>rot. rotated_nodes item get_node_by_uid = Inr rot
     \<and> length rot = length (node_uids item)
     \<and> (\<forall>i < length (node_uids item).
           rot ! ((i + nat (origin_node_index item)) mod length (node_uids item))
             = get_node_by_uid (node_uids item ! i))
     \<and> rot ! nat (origin_node_index item) = get_node_by_uid (node_uids item ! 0)
     \<and> hd rot = get_node_by_uid (node_uids item !
           ((length (node_uids item) - nat (origin_node_index item)) mod length (node_uids item)))"
proof -
  define arr where "arr = map get_node_by_uid (node_uids item)"
  define n where "n = length (node_uids item)"
  define c where "c = nat (origin_node_index item)"
  have len: "length arr = n" by (simp add: arr_def n_def)
  have c: "c < n" using assms by (simp add: c_def n_def)
  have bound: "origin_node_index item < int (length arr)"
    using assms(2) by (simp add: arr_def)
  from rotate_right_nth [OF assms(1) bound]
  obtain rot where rot: "rotate_right arr (origin_node_index item) = Inr rot"
    "length rot = n" "\<forall>i < n. rot ! ((i + c) mod n) = arr ! i"
    unfolding len c_def [symmetric] by blast
  have nth: "arr ! i = get_node_by_uid (node_uids item ! i)" if "i < n" for i
    using that by (simp add: arr_def n_def)
  have all: "\<forall>i < n. rot ! ((i + c) mod n) = get_node_by_uid (node_uids item ! i)"
    using rot(3) nth by simp
  have zero: "rot ! c = get_node_by_uid (node_uids item ! 0)"
    using all c by (metis add_0 mod_less less_nat_zero_code not_gr_zero)
  have m: "(n - c) mod n < n" using c by simp
  have "((n - c) mod n + c) mod n = 0"
  proof (cases "c = 0")
    case True
    then show ?thesis by simp
  next
    case False
    then have "(n - c) mod n = n - c" using c by simp
    then show ?thesis using c by simp
  qed
  then have "rot ! 0 = get_node_by_uid (node_uids item ! ((n - c) mod n))"
    using all m by metis
  moreover have "rot \<noteq> []" using rot(2) c by auto
  ultimately have first: "hd rot = get_node_by_uid (node_uids item ! ((n - c) mod n))"
    by (simp add: hd_conv_nth)
  show ?thesis
    using rot(1) rot(2) all zero first
    by (simp add: rotated_nodes_def arr_def n_def c_def)
qed

theorem rotated_nodes_positions_witness:
  "\<exists>rot. rotated_nodes \<lparr>prefab_uid = 1,
            prefab_description = (None :: nat PrefabDescription option),
            node_uids = [10, 20, 30], origin_node_index = 1\<rparr> resolve_all = Inr rot
     \<and> length rot = 3
     \<and> rot ! 1 = resolve_all 10
     \<and> hd rot = resolve_all 30"
proof -
  have "\<exists>rot. rotated_nodes \<lparr>prefab_uid = 1,
            prefab_description = (None :: nat PrefabDescription option),
            node_uids = [10, 20, 30], origin_node_index = 1\<rparr> resolve_all = Inr rot
     \<and> length rot = length [10, 20, 30 :: int]
     \<and> (\<forall>i < length [10, 20, 30 :: int].
           rot ! ((i + nat 1) mod length [10, 20, 30 :: int]) = resolve_all ([10, 20, 30] ! i))
     \<and> rot ! nat 1 = resolve_all ([10, 20, 30] ! 0)
     \<and> hd rot = resolve_all ([10, 20, 30] !
           ((length [10, 20, 30 :: int] - nat 1) mod length [10, 20, 30 :: int]))"
    using rotated_nodes_positions [of "\<lparr>prefab_uid = 1,
       prefab_description = (None :: nat PrefabDescription option),
       node_uids = [10, 20, 30], origin_node_index = 1\<rparr>" resolve_all]
    by simp
  then obtain rot where rot: "rotated_nodes \<lparr>prefab_uid = 1,
            prefab_description = (None :: nat PrefabDescription option),
            node_uids = [10, 20, 30], origin_node_index = 1\<rparr> resolve_all = Inr rot"
    "length rot = length [10, 20, 30 :: int]"
    "rot ! nat 1 = resolve_all ([10, 20, 30] ! 0)"
    "hd rot = resolve_all ([10, 20, 30] !
           ((length [10, 20, 30 :: int] - nat 1) mod length [10, 20, 30 :: int]))"
    by blast
  have "length rot = 3" using rot(2) by simp
  moreover have "rot ! 1 = resolve_all 10" using rot(3) by simp
  moreover have "(length [10, 20, 30 :: int] - nat 1) mod length [10, 20, 30 :: int] = 2"
    by simp
  then have "hd rot = resolve_all 30" using rot(4) by simp
  ultimately show ?thesis using rot(1) by blast
qed

text \<open>
  The claim as the specification words it fails: with three boundary nodes and origin
  index 1 the rotated list starts with the third node, not with the node at the origin
  index.
\<close>

theorem rotated_nodes_origin_first_counterexample:
  "rotated_nodes \<lparr>prefab_uid = 1, prefab_description = (None :: nat PrefabDescription option),
       node_uids = [10, 20, 30], origin_node_index = 1\<rparr> resolve_all
     = Inr [resolve_all 30, resolve_all 10, resolve_all 20]
   \<and> hd [resolve_all 30, resolve_all 10, resolve_all 20] \<noteq> resolve_all ([10, 20, 30] ! 1)"
  by (simp add: rotated_nodes_def rotate_right_def resolve_all_def plain_node_def)

section \<open>Connecting lanes of a road\<close>

text \<open>
  Claim C6. For a road item: with an unresolved road look the connecting-lanes query
  returns the empty list; when node 1 is the start node it returns the right-side range
  from the left count up to left count plus right count; otherwise the left-side range from
  0 up to the left count when there are left lanes, else the range from 0 up to the right
  count. The query does not raise on a road item.
\<close>

theorem road_connecting_lanes:
  "(road_look r = None \<longrightarrow>
      get_connecting_lanes_by_item node_1 node_2 (RoadItem r) get_node_by_uid = Inr [])
   \<and> (\<forall>look. road_look r = Some look \<longrightarrow>
        get_connecting_lanes_by_item node_1 node_2 (RoadItem r) get_node_by_uid =
          Inr (if start_node_uid r = node_uid node_1
               then [length (lanes_left look) ..< length (lanes_left look) + length (lanes_right look)]
               else if 0 < length (lanes_left look) then [0 ..< length (lanes_left look)]
               else [0 ..< length (lanes_right look)]))"
  by (simp add: get_connecting_lanes_by_item_def road_lanes_def Let_def)

theorem road_connecting_lanes_witness:
  "get_connecting_lanes_by_item (plain_node 5) (plain_node 6)
     (RoadItem \<lparr>road_uid = 1,
        road_look = Some \<lparr>lanes_left = [''l0'', ''l1''], lanes_right = [''r0'', ''r1'', ''r2'']\<rparr>,
        start_node_uid = 5, lanes = None\<rparr> :: nat Item) resolve_all
   = Inr [2, 3, 4]"
  using road_connecting_lanes [of "\<lparr>road_uid = 1,
      road_look = Some \<lparr>lanes_left = [''l0'', ''l1''], lanes_right = [''r0'', ''r1'', ''r2'']\<rparr>,
      start_node_uid = 5, lanes = None\<rparr>" "plain_node 5" "plain_node 6" resolve_all]
  by (simp add: plain_node_def eval_nat_numeral)

section \<open>Connecting lanes of a prefab\<close>

lemma ex_less_Suc_shift: "(\<exists>j < Suc n. R j) \<longleftrightarrow> R 0 \<or> (\<exists>j < n. R (Suc j))"
  by (auto simp add: less_Suc_eq_0_disj)

lemma ex_le_Suc_shift: "(\<exists>i \<le> Suc j. R i) \<longleftrightarrow> R 0 \<or> (\<exists>i \<le> j. R (Suc i))"
proof
  assume "\<exists>i \<le> Suc j. R i"
  then obtain i where i: "i \<le> Suc j" "R i" by blast
  show "R 0 \<or> (\<exists>i \<le> j. R (Suc i))"
  proof (cases i)
    case 0
    with i show ?thesis by simp
  next
    case (Suc k)
    with i show ?thesis by auto
  qed
next
  assume "R 0 \<or> (\<exists>i \<le> j. R (Suc i))"
  then show "\<exists>i \<le> Suc j. R i" by auto
qed

text \<open>
  The loop invariant of the curve walk: started with the flag \<open>sf\<close>, the walk ends with
  both flags set exactly when some curve has its index among the output lanes and either
  the flag was set or a curve at or before it has its index among the input lanes.
\<close>

lemma walk_curves_iff:
  "(case walk_curves navc ins outs chain sf of (s, e) \<Rightarrow> s \<and> e) \<longleftrightarrow>
     (\<exists>j < length chain. curve_index_in navc outs (chain ! j)
        \<and> (sf \<or> (\<exists>i \<le> j. curve_index_in navc ins (chain ! i))))"
proof (induction chain arbitrary: sf)
  case Nil
  show ?case by simp
next
  case (Cons c cs)
  show ?case
  proof (cases "list_index navc c")
    case None
    then show ?thesis
      by (simp add: Cons.IH ex_less_Suc_shift ex_le_Suc_shift curve_index_in_def)
  next
    case (Some k)
    then show ?thesis
      by (auto simp add: Cons.IH ex_less_Suc_shift ex_le_Suc_shift curve_index_in_def Let_def)
  qed
qed

lemma accepted_routes_eq:
  "accepted_routes d sn en =
     filter (\<lambda>k. route_connects (nav_curves d) (input_lanes sn) (output_lanes en)
                   (curves (nav_routes d ! k))) [0 ..< length (nav_routes d)]"
  unfolding accepted_routes_def route_connects_def
  by (simp add: walk_curves_iff)

text \<open>
  Claim C5. For a prefab item with a resolved description, whose rotation succeeds, with
  node 1 first found at position \<open>i1\<close> and node 2 first found at a different position \<open>i2\<close>
  of the rotated boundary nodes, both positions having a descriptor, the connecting-lanes
  query returns exactly the indices, in increasing order, of the navigation routes whose
  chain has a curve with its index among the output lanes of the end descriptor and, at or
  before it, a curve with its index among the input lanes of the start descriptor. The
  result may be empty.
\<close>

theorem prefab_connecting_lanes:
  assumes "prefab_description p = Some d"
    and "rotated_nodes p get_node_by_uid = Inr rot"
    and "node_matches rot (node_uid node_1) = i1 # more_1"
    and "node_matches rot (node_uid node_2) = i2 # more_2"
    and "i1 \<noteq> i2"
    and "i1 < length (nodes d)"
    and "i2 < length (nodes d)"
  shows "get_connecting_lanes_by_item node_1 node_2 (PrefabItem p) get_node_by_uid =
     Inr (filter (\<lambda>k. route_connects (nav_curves d) (input_lanes (nodes d ! i1))
                        (output_lanes (nodes d ! i2)) (curves (nav_routes d ! k)))
            [0 ..< length (nav_routes d)])"
  using assms
  by (simp add: get_connecting_lanes_by_item_def prefab_lanes_def accepted_routes_eq)

lemma example_rotated: "rotated_nodes example_prefab resolve_all = Inr [resolve_all 30, resolve_all 10, resolve_all 20]"
  by (simp add: rotated_nodes_def rotate_right_def example_prefab_def)

lemma example_match_1: "node_matches [resolve_all 30, resolve_all 10, resolve_all 20] (node_uid (plain_node 10)) = [1]"
  by (simp add: node_matches_def resolve_all_def plain_node_def upt_rec eval_nat_numeral)

lemma example_match_2: "node_matches [resolve_all 30, resolve_all 10, resolve_all 20] (node_uid (plain_node 20)) = [2]"
  by (simp add: node_matches_def resolve_all_def plain_node_def upt_rec eval_nat_numeral)

theorem prefab_connecting_lanes_witness:
  "get_connecting_lanes_by_item (plain_node 10) (plain_node 20) (PrefabItem example_prefab) resolve_all
     = Inr [0]"
proof -
  have d: "prefab_description example_prefab = Some example_description"
    by (simp add: example_prefab_def)
  have r0: "route_connects [100, 101, 102::nat] [0] [1] [100, 101]"
    unfolding route_connects_def curve_index_in_def
    by (rule exI [of _ 1]) (simp, rule exI [of _ 0], simp)
  have r1: "\<not> route_connects [100, 101, 102::nat] [0] [1] [101, 100]"
    by (simp add: route_connects_def curve_index_in_def ex_less_Suc_shift ex_le_Suc_shift
          eval_nat_numeral)
  have r2: "\<not> route_connects [100, 101, 102::nat] [0] [1] [102]"
    by (simp add: route_connects_def curve_index_in_def)
  have "get_connecting_lanes_by_item (plain_node 10) (plain_node 20) (PrefabItem example_prefab) resolve_all
     = Inr (filter (\<lambda>k. route_connects (nav_curves example_description)
                        (input_lanes (nodes example_description ! 1))
                        (output_lanes (nodes example_description ! 2))
                        (curves (nav_routes example_description ! k)))
            [0 ..< length (nav_routes example_description)])"
    by (rule prefab_connecting_lanes [OF d example_rotated example_match_1 example_match_2]) (simp_all add: example_description_def)
  then show ?thesis
    using r0 r1 r2 by (simp add: example_description_def upt_rec eval_nat_numeral)
qed

section \<open>Scalar smoother\<close>

text \<open>
  Claim C10. A smoother built in "frames" mode with capacity 3 holds the initial sample 0;
  pushing 1, 2, 3, 4 returns the averages 1/2, 1, 2 and (2+3+4)/3 = 3 and leaves the samples
  2, 3, 4, whose average \<open>get\<close> reports as 3. In general, pushing onto a full history of
  positive capacity drops the oldest sample and appends the new one.
\<close>

theorem frames_smoother_drops_oldest:
  "SmoothedValue_init ''frames'' 3 t0 =
     Inr \<lparr>valueArray = FrameDeque 3 [0], smoothingType = ''frames'', smoothingAmount = 3\<rparr>
   \<and> smooth_all \<lparr>valueArray = FrameDeque 3 [0], smoothingType = ''frames'', smoothingAmount = 3\<rparr>
         [(t1, 1), (t2, 2), (t3, 3), (t4, 4)]
       = Inr ([1 / 2, 1, 2, (2 + 3 + 4) / 3],
              \<lparr>valueArray = FrameDeque 3 [2, 3, 4], smoothingType = ''frames'', smoothingAmount = 3\<rparr>)
   \<and> get \<lparr>valueArray = FrameDeque 3 [2, 3, 4], smoothingType = ''frames'', smoothingAmount = 3\<rparr> t5
       = Inr (3, \<lparr>valueArray = FrameDeque 3 [2, 3, 4], smoothingType = ''frames'', smoothingAmount = 3\<rparr>)
   \<and> (\<forall>s m x xs now v.
         smoothingType s = ''frames'' \<and> valueArray s = FrameDeque m (x # xs) \<and> length (x # xs) = m
         \<longrightarrow> smooth s now v =
               Inr (sum_list (xs @ [v]) / real m, s\<lparr>valueArray := FrameDeque m (xs @ [v])\<rparr>))"
proof -
  have a: "SmoothedValue_init ''frames'' 3 t0 =
     Inr \<lparr>valueArray = FrameDeque 3 [0], smoothingType = ''frames'', smoothingAmount = 3\<rparr>"
    by (simp add: SmoothedValue_init_def py_int_def deque_append_def)
  have b: "smooth_all \<lparr>valueArray = FrameDeque 3 [0], smoothingType = ''frames'', smoothingAmount = 3\<rparr>
         [(t1, 1), (t2, 2), (t3, 3), (t4, 4)]
       = Inr ([1 / 2, 1, 2, (2 + 3 + 4) / 3],
              \<lparr>valueArray = FrameDeque 3 [2, 3, 4], smoothingType = ''frames'', smoothingAmount = 3\<rparr>)"
    by (simp add: smooth_def deque_append_def average_def)
  have c: "get \<lparr>valueArray = FrameDeque 3 [2, 3, 4], smoothingType = ''frames'', smoothingAmount = 3\<rparr> t5
       = Inr (3, \<lparr>valueArray = FrameDeque 3 [2, 3, 4], smoothingType = ''frames'', smoothingAmount = 3\<rparr>)"
    by (simp add: get_def average_def)
  have d: "smooth s now v =
               Inr (sum_list (xs @ [v]) / real m, s\<lparr>valueArray := FrameDeque m (xs @ [v])\<rparr>)"
    if "smoothingType s = ''frames''" "valueArray s = FrameDeque m (x # xs)" "length (x # xs) = m"
    for s m x xs now v
    using that by (auto simp add: smooth_def deque_append_def average_def)
  from a b c d show ?thesis by blast
qed

theorem frames_smoother_drops_oldest_witness:
  "smooth \<lparr>valueArray = FrameDeque 3 [1, 2, 3], smoothingType = ''frames'', smoothingAmount = 3\<rparr> 0 4
     = Inr (3, \<lparr>valueArray = FrameDeque 3 [2, 3, 4], smoothingType = ''frames'', smoothingAmount = 3\<rparr>)"
  using frames_smoother_drops_oldest [of 0 0 0 0 0 0, THEN conjunct2, THEN conjunct2,
      THEN conjunct2, rule_format,
      of "\<lparr>valueArray = FrameDeque 3 [1, 2, 3], smoothingType = ''frames'', smoothingAmount = 3\<rparr>"
         3 1 "[2, 3]" 0 4]
  by simp

section \<open>Lane-safety evaluation\<close>

lemma fail_open_return:
  assumes "target_lane \<noteq> current_lane"
    and "fail_open_condition vehicles target_lane road"
  shows "check_lane_safety IsInFront vehicles truck st target_lane current_lane road
           = Inr (st, True, 1)"
  using assms
  by (auto simp add: check_lane_safety_def fail_open_condition_def)

text \<open>
  Claim C3. When the target lane equals the current lane, or the traffic collaborator
  yields no vehicles, or the road has no lane data for the target lane, or the target lane
  has no centerline points, the evaluation does not raise and returns safe with factor 1;
  when the target lane equals the current lane it also clears the pending-change and
  must-slow-down flags.
\<close>

theorem check_lane_safety_fail_open:
  assumes "target_lane = current_lane \<or> fail_open_condition vehicles target_lane road"
  shows "(\<exists>st'. check_lane_safety IsInFront vehicles truck st target_lane current_lane road
                  = Inr (st', True, 1))
     \<and> (target_lane = current_lane \<longrightarrow>
          check_lane_safety IsInFront vehicles truck st target_lane current_lane road
            = Inr (st\<lparr>pending_lane_change := False, slow_down_for_lane_change := False\<rparr>, True, 1))"
proof (cases "target_lane = current_lane")
  case True
  then show ?thesis by (simp add: check_lane_safety_def)
next
  case False
  with assms have "fail_open_condition vehicles target_lane road" by simp
  from fail_open_return [OF False this] show ?thesis using False by simp
qed

theorem check_lane_safety_fail_open_witness:
  "\<exists>st'. check_lane_safety IsInFront_dot [vehicle_at 10] truck_at_origin idle_state 0 1
            two_lane_road = Inr (st', True, 1)"
  using check_lane_safety_fail_open [where target_lane = 0 and current_lane = 1
      and vehicles = "[vehicle_at 10]" and road = two_lane_road and IsInFront = IsInFront_dot
      and truck = truck_at_origin and st = idle_state, THEN conjunct1]
  by (simp add: fail_open_condition_def two_lane_road_def py_index_def)

text \<open>
  Claim C9. In the pending-change state, an evaluation that takes one of the fail-open
  early returns (the target differs from the current lane, and there are no vehicles, no
  lane data for the target lane or no centerline points) returns safe with factor 1 and
  leaves the three state variables as they were, so the evaluator still reports waiting.
  An evaluation that ends with the pending flag cleared took the target-equals-current
  branch or the no-blocking-vehicles branch; the explicit reset clears the flag too.
\<close>

theorem pending_state_kept_on_fail_open:
  assumes "pending_lane_change st"
    and "target_lane \<noteq> current_lane"
    and "fail_open_condition vehicles target_lane road"
  shows "check_lane_safety IsInFront vehicles truck st target_lane current_lane road
           = Inr (st, True, 1)
     \<and> is_waiting_for_lane_change st
     \<and> \<not> is_waiting_for_lane_change (reset_lane_change_state st)
     \<and> (\<forall>vs tl cl rd st' safe factor.
          check_lane_safety IsInFront vs truck st tl cl rd = Inr (st', safe, factor)
          \<and> \<not> pending_lane_change st'
          \<longrightarrow> tl = cl
              \<or> (vs \<noteq> [] \<and> (\<exists>lane_list the_lane lane_points.
                     lanes rd = Some lane_list \<and> py_index lane_list tl = Inr the_lane
                     \<and> points the_lane = Some lane_points \<and> lane_points \<noteq> []
                     \<and> blocking_vehicles IsInFront lane_points (truck_x truck, truck_z truck)
                          (truck_rotation truck) vs = [])))"
proof -
  have a: "check_lane_safety IsInFront vehicles truck st target_lane current_lane road
           = Inr (st, True, 1)"
    using fail_open_return [OF assms(2) assms(3)] .
  have b: "is_waiting_for_lane_change st"
    using assms(1) by (simp add: is_waiting_for_lane_change_def)
  have c: "\<not> is_waiting_for_lane_change (reset_lane_change_state st)"
    by (simp add: is_waiting_for_lane_change_def reset_lane_change_state_def)
  have d: "tl = cl
              \<or> (vs \<noteq> [] \<and> (\<exists>lane_list the_lane lane_points.
                     lanes rd = Some lane_list \<and> py_index lane_list tl = Inr the_lane
                     \<and> points the_lane = Some lane_points \<and> lane_points \<noteq> []
                     \<and> blocking_vehicles IsInFront lane_points (truck_x truck, truck_z truck)
                          (truck_rotation truck) vs = []))"
    if "check_lane_safety IsInFront vs truck st tl cl rd = Inr (st', safe, factor)"
      "\<not> pending_lane_change st'"
    for vs tl cl rd st' safe factor
    using that assms(1)
    by (auto simp add: check_lane_safety_def Let_def
          split: if_splits option.splits sum.splits)
  from a b c d show ?thesis by blast
qed

theorem pending_state_kept_on_fail_open_witness:
  "check_lane_safety IsInFront_dot [vehicle_at 10] truck_at_origin pending_state 0 1
     two_lane_road = Inr (pending_state, True, 1)
   \<and> is_waiting_for_lane_change pending_state"
proof -
  have "fail_open_condition [vehicle_at 10] 0 two_lane_road"
    by (simp add: fail_open_condition_def two_lane_road_def py_index_def)
  from pending_state_kept_on_fail_open [where st = pending_state and target_lane = 0
      and current_lane = 1 and IsInFront = IsInFront_dot and truck = truck_at_origin, OF _ _ this]
  show ?thesis by (simp add: pending_state_def)
qed

subsection \<open>Blocking vehicles\<close>

lemma classify_vehicle_blocking:
  "classify_vehicle F pts tp rot v =
     (if is_blocking F pts tp rot v
      then Some (v, dist_to_truck v tp,
                 if F (pos_x (position v), pos_z (position v)) rot tp then Ahead else Behind)
      else None)"
  by (auto simp add: classify_vehicle_def is_blocking_def Let_def SAFETY_DISTANCE_AHEAD_def
        SAFETY_DISTANCE_BEHIND_def SAFETY_DISTANCE_BESIDE_def)

lemma blocking_distances:
  "map (\<lambda>b. fst (snd b)) (blocking_vehicles F pts tp rot vs)
     = map (\<lambda>v. dist_to_truck v tp) (filter (is_blocking F pts tp rot) vs)"
  by (induction vs) (simp_all add: blocking_vehicles_def map_filter_simps classify_vehicle_blocking)

lemma blocking_empty_iff:
  "blocking_vehicles F pts tp rot vs = [] \<longleftrightarrow> filter (is_blocking F pts tp rot) vs = []"
  using blocking_distances [of F pts tp rot vs]
  by (metis map_is_Nil_conv)

lemma py_index_bound: "py_index xs i = Inr a \<Longrightarrow> i < int (length xs)"
  by (auto simp add: py_index_def Let_def split: if_splits)

lemma in_lane_points: "is_vehicle_in_lane F v pts tp rot \<Longrightarrow> pts \<noteq> []"
  by (auto simp add: is_vehicle_in_lane_def)

text \<open>
  Claim C1. In a call whose target lane differs from the current lane and has centerline
  points, if at least one vehicle with a non-zero position is a member of the target lane
  and is ahead, behind or beside, the evaluation moves to the pending-change state for the
  target lane with the must-slow-down flag set, and returns not safe with the factor
  clamp(d / 30, 0.3, 1), where d is the least distance to the truck among the blocking
  vehicles. The instance after the theorem is the vehicle 10 m ahead on the centerline of
  the target lane: not safe, factor 1/3.
\<close>

theorem blocked_lane_change:
  assumes "target_lane \<noteq> current_lane"
    and "lanes road = Some lane_list"
    and "py_index lane_list target_lane = Inr the_lane"
    and "points the_lane = Some lane_points"
    and "vehicle \<in> set vehicles"
    and "is_blocking IsInFront lane_points (truck_x truck, truck_z truck) (truck_rotation truck) vehicle"
  shows "check_lane_safety IsInFront vehicles truck st target_lane current_lane road =
     Inr (st\<lparr>pending_lane_change := True, target_lane_index := Some target_lane,
             slow_down_for_lane_change := True\<rparr>,
          False,
          min 1 (max 0.3
            (Min ((\<lambda>v. dist_to_truck v (truck_x truck, truck_z truck)) `
                    {v \<in> set vehicles. is_blocking IsInFront lane_points
                        (truck_x truck, truck_z truck) (truck_rotation truck) v}) / 30)))"
proof -
  let ?tp = "(truck_x truck, truck_z truck)"
  let ?rot = "truck_rotation truck"
  let ?bs = "filter (is_blocking IsInFront lane_points ?tp ?rot) vehicles"
  have ne: "?bs \<noteq> []" using assms(5,6) by (auto simp add: filter_empty_conv)
  then have nb: "blocking_vehicles IsInFront lane_points ?tp ?rot vehicles \<noteq> []"
    by (simp add: blocking_empty_iff)
  have vs: "vehicles \<noteq> []" using assms(5) by auto
  have pts: "lane_points \<noteq> []"
    using assms(6) by (auto simp add: is_blocking_def dest: in_lane_points)
  have idx: "\<not> int (length lane_list) \<le> target_lane"
    using py_index_bound [OF assms(3)] by simp
  have "min_list (map (\<lambda>b. fst (snd b)) (blocking_vehicles IsInFront lane_points ?tp ?rot vehicles))
      = Min (set (map (\<lambda>v. dist_to_truck v ?tp) ?bs))"
    using ne by (simp add: blocking_distances min_list_Min)
  also have "set (map (\<lambda>v. dist_to_truck v ?tp) ?bs)
      = (\<lambda>v. dist_to_truck v ?tp) ` {v \<in> set vehicles. is_blocking IsInFront lane_points ?tp ?rot v}"
    by auto
  finally have m: "min_list (map (\<lambda>b. fst (snd b)) (blocking_vehicles IsInFront lane_points ?tp ?rot vehicles))
      = Min ((\<lambda>v. dist_to_truck v ?tp) ` {v \<in> set vehicles. is_blocking IsInFront lane_points ?tp ?rot v})" .
  show ?thesis
    using assms(1-4) vs pts idx nb m
    by (simp add: check_lane_safety_def Let_def SAFETY_DISTANCE_AHEAD_def)
qed

lemma dist_vehicle_at: "dist_to_truck (vehicle_at z) (0, 0) = \<bar>z\<bar>"
  by (simp add: dist_to_truck_def vehicle_at_def)

lemma front_vehicle_at: "IsInFront_dot (0, z) 0 (0, 0) \<longleftrightarrow> 0 < z"
  by (simp add: IsInFront_dot_def)

lemma on_segment_distance:
  assumes l: "(x2 - x1) * (x2 - x1) + (z2 - z1) * (z2 - z1) \<noteq> 0"
    and t: "t = ((px - x1) * (x2 - x1) + (pz - z1) * (z2 - z1))
                 / ((x2 - x1) * (x2 - x1) + (z2 - z1) * (z2 - z1))"
    and t0: "0 \<le> t" and t1: "t \<le> 1"
    and px: "px = x1 + t * (x2 - x1)" and pz: "pz = z1 + t * (z2 - z1)"
  shows "distance_point_to_line_segment (px, pz) (x1, z1) (x2, z2) = 0"
proof -
  have m: "max 0 (min 1 t) = t" using t0 t1 by simp
  have "distance_point_to_line_segment (px, pz) (x1, z1) (x2, z2)
      = sqrt ((px - (x1 + t * (x2 - x1)))\<^sup>2 + (pz - (z1 + t * (z2 - z1)))\<^sup>2)"
    unfolding distance_point_to_line_segment_def Let_def fst_conv snd_conv
    by (simp only: l if_False t [symmetric] m)
  also have "\<dots> = 0" using px pz by simp
  finally show ?thesis .
qed

lemma centerline_distance:
  assumes "-100 \<le> z" "z \<le> 100"
  shows "min_dist_to_lane (0, z) [\<lparr>pos_x = 0, pos_y = 0, pos_z = -100\<rparr>,
                                    \<lparr>pos_x = 0, pos_y = 0, pos_z = 100\<rparr>] = Some 0"
proof -
  have "distance_point_to_line_segment (0, z) (0, -100) (0, 100) = 0"
    by (rule on_segment_distance [where t = "(z + 100) / 200"]) (use assms in \<open>simp_all add: add_divide_distrib\<close>)
  then show ?thesis
    by (simp add: min_dist_to_lane_def)
qed

lemma in_lane_vehicle_at:
  assumes "-100 \<le> z" "z \<le> 100"
  shows "is_vehicle_in_lane IsInFront_dot (vehicle_at z)
           [\<lparr>pos_x = 0, pos_y = 0, pos_z = -100\<rparr>, \<lparr>pos_x = 0, pos_y = 0, pos_z = 100\<rparr>] (0, 0) 0
         \<longleftrightarrow> \<not> \<bar>z\<bar> > (if 0 < z then 30 else 15) + 10"
  using centerline_distance [OF assms]
  by (simp add: is_vehicle_in_lane_def dist_vehicle_at Let_def LANE_WIDTH_def
        SAFETY_DISTANCE_AHEAD_def SAFETY_DISTANCE_BEHIND_def)
    (simp add: vehicle_at_def front_vehicle_at LANE_WIDTH_def)

theorem blocked_lane_change_witness:
  "check_lane_safety IsInFront_dot [vehicle_at 10] truck_at_origin idle_state 1 0 two_lane_road
     = Inr (\<lparr>pending_lane_change = True, target_lane_index = Some 1,
              slow_down_for_lane_change = True\<rparr>, False, 1 / 3)"
proof -
  let ?pts = "[\<lparr>pos_x = 0, pos_y = 0, pos_z = -100\<rparr>, \<lparr>pos_x = 0, pos_y = 0, pos_z = 100\<rparr>]"
  have b: "is_blocking IsInFront_dot ?pts (truck_x truck_at_origin, truck_z truck_at_origin)
             (truck_rotation truck_at_origin) (vehicle_at 10)"
    using in_lane_vehicle_at [of 10]
    by (simp add: is_blocking_def truck_at_origin_def dist_vehicle_at)
      (simp add: vehicle_at_def front_vehicle_at is_zero_def)
  have s: "{v \<in> set [vehicle_at 10]. is_blocking IsInFront_dot ?pts
             (truck_x truck_at_origin, truck_z truck_at_origin)
             (truck_rotation truck_at_origin) v} = {vehicle_at 10}"
    using b by auto
  have "check_lane_safety IsInFront_dot [vehicle_at 10] truck_at_origin idle_state 1 0 two_lane_road
     = Inr (idle_state\<lparr>pending_lane_change := True, target_lane_index := Some 1,
             slow_down_for_lane_change := True\<rparr>,
          False,
          min 1 (max 0.3
            (Min ((\<lambda>v. dist_to_truck v (truck_x truck_at_origin, truck_z truck_at_origin)) `
                    {v \<in> set [vehicle_at 10]. is_blocking IsInFront_dot ?pts
                        (truck_x truck_at_origin, truck_z truck_at_origin)
                        (truck_rotation truck_at_origin) v}) / 30)))"
    by (rule blocked_lane_change [where lane_list = "[\<lparr>points = Some []\<rparr>, straight_lane]"
            and the_lane = straight_lane and vehicle = "vehicle_at 10", OF _ _ _ _ _ b])
       (simp_all add: two_lane_road_def py_index_def straight_lane_def)
  then show ?thesis
    unfolding s by (simp add: truck_at_origin_def dist_vehicle_at idle_state_def)
qed

subsection \<open>The screening window and the ahead threshold\<close>









section \<open>Surrounding navigation nodes\<close>

lemma list_index_Some_iff:
  "list_index xs a = Some i \<longleftrightarrow> i < length xs \<and> xs ! i = a \<and> (\<forall>j < i. xs ! j \<noteq> a)"
proof (induction xs arbitrary: i)
  case Nil
  show ?case by simp
next
  case (Cons x xs)
  show ?case
  proof (cases "x = a")
    case True
    then show ?thesis by (cases i) auto
  next
    case False
    show ?thesis
    proof (cases i)
      case 0
      with False show ?thesis by auto
    next
      case (Suc k)
      have "(\<forall>j < Suc k. (x # xs) ! j \<noteq> a) \<longleftrightarrow> (\<forall>j < k. xs ! j \<noteq> a)"
        using False by (auto simp add: less_Suc_eq_0_disj)
      with False Suc show ?thesis by (auto simp add: Cons.IH)
    qed
  qed
qed

lemma filter_first:
  "filter P xs = a # r \<Longrightarrow> \<exists>i < length xs. xs ! i = a \<and> (\<forall>j < i. \<not> P (xs ! j))"
proof (induction xs)
  case Nil
  then show ?case by simp
next
  case (Cons x xs)
  show ?case
  proof (cases "P x")
    case True
    with Cons.prems have "x = a" by simp
    then show ?thesis by (intro exI [of _ 0]) simp
  next
    case False
    with Cons.prems have "filter P xs = a # r" by simp
    from Cons.IH [OF this] obtain i where i: "i < length xs" "xs ! i = a" "\<forall>j < i. \<not> P (xs ! j)"
      by blast
    have "\<forall>j < Suc i. \<not> P ((x # xs) ! j)"
      using i(3) False by (auto simp add: less_Suc_eq_0_disj)
    with i show ?thesis by (intro exI [of _ "Suc i"]) simp
  qed
qed

lemma sort_key_head_index:
  fixes f :: "'a \<Rightarrow> real"
  assumes "sort_key f xs = c # rest"
  shows "\<exists>i. list_index xs c = Some i \<and> i < length xs
     \<and> (\<forall>j < length xs. f (xs ! i) \<le> f (xs ! j)) \<and> (\<forall>j < i. f (xs ! i) < f (xs ! j))"
proof -
  have srt: "sorted (map f (c # rest))" using sorted_sort_key [of f xs] assms by simp
  have st: "set xs = set (c # rest)" using set_sort [of f xs] assms by simp
  have le: "f c \<le> f y" if "y \<in> set xs" for y
    using srt st that by auto
  have "filter (\<lambda>y. f y = f c) xs = filter (\<lambda>y. f y = f c) (c # rest)"
    using sort_key_stable [of f "f c" xs] assms by simp
  then have "filter (\<lambda>y. f y = f c) xs = c # filter (\<lambda>y. f y = f c) rest" by simp
  from filter_first [OF this] obtain i where i: "i < length xs" "xs ! i = c"
    "\<forall>j < i. f (xs ! j) \<noteq> f c" by blast
  have "list_index xs c = Some i"
    using i by (auto simp add: list_index_Some_iff)
  moreover have "\<forall>j < length xs. f (xs ! i) \<le> f (xs ! j)"
    using le i(2) by simp
  moreover have "\<forall>j < i. f (xs ! i) < f (xs ! j)"
  proof (intro allI impI)
    fix j assume "j < i"
    then have "f (xs ! j) \<noteq> f c" "f c \<le> f (xs ! j)" using i le by auto
    then show "f (xs ! i) < f (xs ! j)" using i(2) by simp
  qed
  ultimately show ?thesis using i(1) by blast
qed

lemma list_index_flags:
  "(case list_index (map P xs) b of
      None \<Rightarrow> find (\<lambda>n. P n = b) xs = None
    | Some i \<Rightarrow> find (\<lambda>n. P n = b) xs = Some (xs ! i))"
proof (induction xs)
  case Nil
  show ?case by simp
next
  case (Cons x xs)
  then show ?case by (auto split: option.splits)
qed

lemma flags_result:
  "(case (list_index (map P xs) False, list_index (map P xs) True) of
      (Some i, Some j) \<Rightarrow> Inr (Some (xs ! i), Some (xs ! j))
    | _ \<Rightarrow> Inr (None, None)) = Inr (first_behind_and_ahead P xs)"
  using list_index_flags [where P = P and xs = xs and b = False]
    list_index_flags [where P = P and xs = xs and b = True]
  by (auto simp add: first_behind_and_ahead_def split: option.splits)

lemma slice_clip: "py_slice xs i (min (length xs) (i + 2)) = py_slice xs i (i + 2)"
  by (simp add: py_slice_def min_def)

lemma code_window_slice:
  "py_slice path (if \<not> b then i else i - 1)
      (if \<not> b then min (length path) (i + 2)
       else if (if \<not> b then i else i - 1) = 0 then i + 2 else i + 1)
   = py_slice path (fst (code_window b i)) (snd (code_window b i))"
proof (cases b)
  case False
  then show ?thesis by (simp add: code_window_def py_slice_def min_def)
next
  case True
  then show ?thesis by (auto simp add: code_window_def)
qed

lemma surrounding_by_code_window:
  assumes "route_nodes \<noteq> []"
  shows "\<exists>index. is_closest_index (x, z) (map node route_nodes) index
     \<and> get_surrounding_nav_nodes IsInFront route_nodes x z rot
         = Inr (surrounding_by_window code_window IsInFront (map node route_nodes) (x, z) rot index)"
proof -
  define path where "path = map node route_nodes"
  define f where "f = (\<lambda>n::Node. DistanceBetweenPoints (node_x n, node_y n) (x, z))"
  have "length (sort_key f path) = length path" by simp
  moreover have "path \<noteq> []" using assms by (simp add: path_def)
  ultimately have "sort_key f path \<noteq> []" by (metis length_0_conv)
  then obtain c rest where srt: "sort_key f path = c # rest"
    by (cases "sort_key f path") auto
  from sort_key_head_index [OF srt] obtain i where i: "list_index path c = Some i"
    "i < length path" "\<forall>j < length path. f (path ! i) \<le> f (path ! j)"
    "\<forall>j < i. f (path ! i) < f (path ! j)" by blast
  have c: "path ! i = c" using i(1) by (simp add: list_index_Some_iff)
  have closest: "is_closest_index (x, z) path i"
    using i(2-4) by (simp add: is_closest_index_def f_def)
  have "get_surrounding_nav_nodes IsInFront route_nodes x z rot
         = Inr (surrounding_by_window code_window IsInFront path (x, z) rot i)"
    unfolding get_surrounding_nav_nodes_def Let_def path_def [symmetric] f_def [symmetric]
      surrounding_by_window_def
    by (simp only: srt list.case i(1) option.case c code_window_slice flags_result)
  with closest show ?thesis unfolding path_def by blast
qed

lemma closest_index_unique:
  assumes "is_closest_index pos path i" and "is_closest_index pos path j"
  shows "i = j"
proof (rule ccontr)
  assume "i \<noteq> j"
  then consider "i < j" | "j < i" by linarith
  then show False
  proof cases
    case 1
    then have "DistanceBetweenPoints (node_x (path ! j), node_y (path ! j)) pos
        < DistanceBetweenPoints (node_x (path ! i), node_y (path ! i)) pos"
      using assms(2) by (simp add: is_closest_index_def)
    moreover have "DistanceBetweenPoints (node_x (path ! i), node_y (path ! i)) pos
        \<le> DistanceBetweenPoints (node_x (path ! j), node_y (path ! j)) pos"
      using assms by (simp add: is_closest_index_def)
    ultimately show False by simp
  next
    case 2
    then have "DistanceBetweenPoints (node_x (path ! i), node_y (path ! i)) pos
        < DistanceBetweenPoints (node_x (path ! j), node_y (path ! j)) pos"
      using assms(1) by (simp add: is_closest_index_def)
    moreover have "DistanceBetweenPoints (node_x (path ! j), node_y (path ! j)) pos
        \<le> DistanceBetweenPoints (node_x (path ! i), node_y (path ! i)) pos"
      using assms by (simp add: is_closest_index_def)
    ultimately show False by simp
  qed
qed

lemma distance_on_axis: "DistanceBetweenPoints (0, a) (0, b) = \<bar>a - b\<bar>"
  by (simp add: DistanceBetweenPoints_def)

lemma single_node_window:
  "surrounding_by_window code_window IsInFront [n] pos rot 0 = (None, None)"
  by (cases "IsInFront (node_x n, node_y n) rot pos")
    (simp_all add: surrounding_by_window_def code_window_def py_slice_def
      first_behind_and_ahead_def)

text \<open>
  Claim C8, as the code has it. On a non-empty path the closest index is the first index of
  least distance, and the locator returns the first node behind and the first node ahead
  within the window of the code: from index up to index + 2 when the closest node is
  behind; from 0 up to index + 2 when it is ahead and the index is 0 or 1; from index - 1
  up to index + 1 when it is ahead and the index is at least 2 (clipped to the path). Both
  results are absent when either class is missing in the window, in particular on a path
  of one node. The instance after the theorem is the straight path of five nodes with the
  truck halfway between nodes 2 and 3, which gives node 2 and node 3.
\<close>

theorem surrounding_nodes_by_code_window:
  "(route_nodes \<noteq> [] \<longrightarrow>
      (\<exists>index. is_closest_index (x, z) (map node route_nodes) index
         \<and> get_surrounding_nav_nodes IsInFront route_nodes x z rot
             = Inr (surrounding_by_window code_window IsInFront (map node route_nodes)
                      (x, z) rot index)))
   \<and> (length route_nodes = 1 \<longrightarrow>
        get_surrounding_nav_nodes IsInFront route_nodes x z rot = Inr (None, None))"
proof (intro conjI impI)
  assume "route_nodes \<noteq> []"
  then show "\<exists>index. is_closest_index (x, z) (map node route_nodes) index
         \<and> get_surrounding_nav_nodes IsInFront route_nodes x z rot
             = Inr (surrounding_by_window code_window IsInFront (map node route_nodes)
                      (x, z) rot index)"
    by (rule surrounding_by_code_window)
next
  assume one: "length route_nodes = 1"
  then obtain r where r: "route_nodes = [r]"
    by (cases route_nodes) auto
  then have "route_nodes \<noteq> []" by simp
  from surrounding_by_code_window [OF this, of x z IsInFront rot]
  obtain index where ix: "is_closest_index (x, z) (map node route_nodes) index"
    "get_surrounding_nav_nodes IsInFront route_nodes x z rot
       = Inr (surrounding_by_window code_window IsInFront (map node route_nodes) (x, z) rot index)"
    by blast
  from ix(1) r have "index = 0" by (simp add: is_closest_index_def)
  with ix(2) r show "get_surrounding_nav_nodes IsInFront route_nodes x z rot = Inr (None, None)"
    by (simp add: single_node_window)
qed

lemma straight_path_closest: "is_closest_index (0, 25) (map node straight_path) 2"
  by (simp add: is_closest_index_def straight_path_def route_node_at_def distance_on_axis
        eval_nat_numeral All_less_Suc)

lemma reversed_path_closest: "is_closest_index (0, 0) (map node reversed_path) 1"
  by (simp add: is_closest_index_def reversed_path_def route_node_at_def distance_on_axis
        eval_nat_numeral All_less_Suc)

theorem surrounding_nodes_by_code_window_witness:
  "get_surrounding_nav_nodes IsInFront_dot straight_path 0 25 0
     = Inr (Some (node (route_node_at 2 20)), Some (node (route_node_at 3 30)))"
proof -
  have "straight_path \<noteq> []" by (simp add: straight_path_def)
  with surrounding_nodes_by_code_window [of straight_path 0 25 IsInFront_dot 0]
  obtain index where ix: "is_closest_index (0, 25) (map node straight_path) index"
    "get_surrounding_nav_nodes IsInFront_dot straight_path 0 25 0
       = Inr (surrounding_by_window code_window IsInFront_dot (map node straight_path)
                (0, 25) 0 index)"
    by blast
  have "index = 2" using closest_index_unique [OF ix(1) straight_path_closest] .
  with ix(2) show ?thesis
    by (simp add: surrounding_by_window_def code_window_def py_slice_def
          first_behind_and_ahead_def straight_path_def route_node_at_def IsInFront_dot_def
          eval_nat_numeral)
qed

text \<open>
  The claim as the specification words it fails at index 1: on the path with nodes at
  z = 10, 1, -5 and the truck at the origin facing the first two, the closest node is the
  second one and it is ahead; the window of the specification holds the first two nodes,
  both ahead, so it gives no result, while the code looks at all three nodes and returns
  the third as last and the first as next.
\<close>

theorem claimed_window_counterexample:
  "is_closest_index (0, 0) (map node reversed_path) 1
   \<and> get_surrounding_nav_nodes IsInFront_dot reversed_path 0 0 0
       = Inr (Some (node (route_node_at 2 (-5))), Some (node (route_node_at 0 10)))
   \<and> surrounding_by_window claimed_window IsInFront_dot (map node reversed_path) (0, 0) 0 1
       = (None, None)"
proof -
  have "reversed_path \<noteq> []" by (simp add: reversed_path_def)
  from surrounding_by_code_window [OF this, of 0 0 IsInFront_dot 0]
  obtain index where ix: "is_closest_index (0, 0) (map node reversed_path) index"
    "get_surrounding_nav_nodes IsInFront_dot reversed_path 0 0 0
       = Inr (surrounding_by_window code_window IsInFront_dot (map node reversed_path)
                (0, 0) 0 index)"
    by blast
  have "index = 1" using closest_index_unique [OF ix(1) reversed_path_closest] .
  with ix(2) have a: "get_surrounding_nav_nodes IsInFront_dot reversed_path 0 0 0
       = Inr (Some (node (route_node_at 2 (-5))), Some (node (route_node_at 0 10)))"
    by (simp add: surrounding_by_window_def code_window_def py_slice_def
          first_behind_and_ahead_def reversed_path_def route_node_at_def IsInFront_dot_def
          eval_nat_numeral)
  have b: "surrounding_by_window claimed_window IsInFront_dot (map node reversed_path) (0, 0) 0 1
       = (None, None)"
    by (simp add: surrounding_by_window_def claimed_window_def py_slice_def
          first_behind_and_ahead_def reversed_path_def route_node_at_def IsInFront_dot_def
          eval_nat_numeral)
  from reversed_path_closest a b show ?thesis by blast
qed

end
